theory Spec2Isabelle
  imports Complex_Main
begin

section \<open>The simulation context of omni.isaac.orbit\<close>

text \<open>
  A shallow embedding of \<^verbatim>\<open>omni/isaac/orbit/sim/simulation_context.py\<close>: the class
  \<^verbatim>\<open>SimulationContext\<close>, a subclass of the simulator's own simulation context.

  The object's attributes (\<^verbatim>\<open>self.cfg\<close>, \<^verbatim>\<open>self.render_mode\<close>, ...) are the record
  \<open>ctx\<close>. Everything owned by the simulator (the stage, the carb settings, the viewport it
  hands out, the callbacks of the base class, and the calls the class makes into the
  simulator) is the record \<open>world\<close>. A method is a function from the state before the call
  to the outcome and the state after it; a \<^verbatim>\<open>raise\<close> is the outcome \<open>Raise\<close>, together
  with the state as it was when the exception left the method.
\<close>

subsection \<open>Data\<close>

text \<open>The enumeration \<^verbatim>\<open>SimulationContext.RenderMode\<close> (lines 69--101).\<close>

datatype RenderMode = HEADLESS | NO_RENDERING | PARTIAL_RENDERING | FULL_RENDERING

text \<open>
  Python checks no argument type: the \<^verbatim>\<open>mode\<close> argument of \<^verbatim>\<open>set_render_mode\<close> can be
  any object. \<^verbatim>\<open>RenderMode\<close> derives from \<^verbatim>\<open>enum.Enum\<close> (not \<^verbatim>\<open>IntEnum\<close>), so a
  member is equal to itself only: \<^verbatim>\<open>RenderMode.NO_RENDERING == 0\<close> is false.
\<close>

datatype pyobj = RenderModeObj RenderMode | IntObj int | StrObj string | NoneObj

text \<open>The exceptions that the modelled code can raise.\<close>

datatype error =
    RuntimeError string
  | ValueError
  | AttributeError
  | ZeroDivisionError
  | IndexError

datatype 'a outcome = Return 'a | Raise error

text \<open>
  The viewport and its window are objects of the simulator; the class writes one flag of
  each (\<^verbatim>\<open>updates_enabled\<close>, \<^verbatim>\<open>visible\<close>).
\<close>

record viewport =
  updates_enabled :: bool

record window =
  visible :: bool

text \<open>
  \<^verbatim>\<open>SimulationCfg\<close> is declared in \<^verbatim>\<open>simulation_cfg.py\<close>, which is not part of the
  sources at hand; the records below hold the fields that \<^verbatim>\<open>simulation_context.py\<close>
  reads or writes. The time step and the gravity vector are Python floats; they are taken
  as finite real numbers here, and rounding is not modelled.
\<close>

record PhysxCfg =
  enable_ccd :: bool
  gpu_collision_stack_size :: int
  min_position_iteration_count :: int
  max_position_iteration_count :: int
  min_velocity_iteration_count :: int
  max_velocity_iteration_count :: int

record SimulationCfg =
  dt :: real
  substeps :: int
  device :: string
  physics_prim_path :: string
  gravity :: "real \<times> real \<times> real"
  disable_contact_processing :: bool
  enable_scene_query_support :: bool
  use_flatcache :: bool
  use_fabric :: bool
  shutdown_app_on_stop :: bool
  physx :: PhysxCfg

text \<open>
  A numpy float that is the result of a division: numpy follows IEEE 754, where a division
  by zero gives an infinity or NaN (numpy prints a warning and raises nothing).
\<close>

datatype npfloat = Finite real | PosInf | NegInf | NaN

text \<open>
  The calls that the class makes into the simulator, in the order it makes them. What the
  simulator does in a call is not part of the file; a call is recorded and returns.
\<close>

datatype call =
    BaseInit real real string string
  | BaseRender
  | FabricUpdate
  | AppUpdate
  | BaseStep bool
  | ForceLoadPhysicsFromUsd
  | BaseReset bool
  | AddTimelineCallback string
  | EnableCcd bool
  | CreateGpuCollisionStackSizeAttr int
  | CreateGravityDirectionAttr npfloat npfloat npfloat
  | CreateGravityMagnitudeAttr real
  | CreateMinIterationCountAttr int
  | CreateMaxIterationCountAttr int
  | CreateMinPositionIterationCountAttr int
  | CreateMaxPositionIterationCountAttr int
  | CreateMinVelocityIterationCountAttr int
  | CreateMaxVelocityIterationCountAttr int
  | CreatePhysicsMaterial string
  | BindPhysicsMaterial string string

text \<open>
  The simulator as the class sees it:
  \<^item> \<open>stage\<close>: \<^verbatim>\<open>stage_utils.get_current_stage()\<close> is not \<^verbatim>\<open>None\<close>;
  \<^item> \<open>carb_settings\<close>: the settings store behind \<^verbatim>\<open>carb.settings.get_settings()\<close>;
  \<^item> \<open>active_viewport\<close>: what \<^verbatim>\<open>get_active_viewport()\<close> returns (it may be \<^verbatim>\<open>None\<close>);
  \<^item> \<open>workspace_window\<close>: what \<^verbatim>\<open>ui.Workspace.get_window("Viewport")\<close> returns;
  \<^item> \<open>isaac_version\<close>: what \<^verbatim>\<open>omni.isaac.version.get_version()\<close> returns, a sequence of
    strings;
  \<^item> \<open>physx_scene_api\<close>: \<^verbatim>\<open>self._physics_context._physx_scene_api\<close> is not \<^verbatim>\<open>None\<close>;
  \<^item> \<open>timeline_callback_functions\<close>: the names under which the base class holds timeline
    callbacks;
  \<^item> \<open>calls\<close>: the calls made so far, the latest last.
\<close>

record world =
  stage :: bool
  carb_settings :: "string \<rightharpoonup> bool"
  active_viewport :: "viewport option"
  workspace_window :: "window option"
  isaac_version :: "string list"
  physx_scene_api :: bool
  timeline_callback_functions :: "string list"
  calls :: "call list"

text \<open>
  The attributes of the object. An attribute that \<^verbatim>\<open>__init__\<close> leaves unset (the two
  throttle attributes in headless mode) or sets to \<^verbatim>\<open>None\<close> (the viewport handles in
  headless mode) is \<open>None\<close>; \<open>fabric_iface\<close> says whether \<^verbatim>\<open>self._fabric_iface\<close> is an
  interface (it is \<^verbatim>\<open>None\<close> otherwise). The viewport and the window are held with their
  flags: once the object has the handles, the flags are read and written through the
  object only.
\<close>

record ctx =
  cfg :: SimulationCfg
  is_headless_attr :: bool
  render_mode :: RenderMode
  viewport_context :: "viewport option"
  viewport_window :: "window option"
  render_throttle_counter :: "int option"
  render_throttle_period :: "int option"
  fabric_iface :: bool
  isaacsim_version :: "string list"

definition emit :: "call \<Rightarrow> world \<Rightarrow> world" where
  "emit c w = w\<lparr>calls := calls w @ [c]\<rparr>"

subsection \<open>Changing the render mode\<close>

text \<open>
  Lines 262--263, 266--267 and 270--271: the two assignments
  \<^verbatim>\<open>self._viewport_context.updates_enabled = b\<close> and \<^verbatim>\<open>self._viewport_window.visible = b\<close>,
  in this order. An assignment through \<^verbatim>\<open>None\<close> raises \<^verbatim>\<open>AttributeError\<close>; the state
  returned with the error has the assignments made before it.
\<close>

definition set_viewport_flags :: "bool \<Rightarrow> ctx \<Rightarrow> unit outcome \<times> ctx" where
  "set_viewport_flags b s =
     (case viewport_context s of
        None \<Rightarrow> (Raise AttributeError, s)
      | Some v \<Rightarrow>
          (let s1 = s\<lparr>viewport_context := Some (v\<lparr>updates_enabled := b\<rparr>)\<rparr>
           in case viewport_window s1 of
                None \<Rightarrow> (Raise AttributeError, s1)
              | Some win \<Rightarrow> (Return (), s1\<lparr>viewport_window := Some (win\<lparr>visible := b\<rparr>)\<rparr>)))"

text \<open>\<^verbatim>\<open>set_render_mode\<close>, lines 243--277.\<close>

definition set_render_mode :: "pyobj \<Rightarrow> ctx \<Rightarrow> unit outcome \<times> ctx" where
  "set_render_mode mode s =
     (if mode \<noteq> RenderModeObj (render_mode s) \<and> render_mode s \<noteq> HEADLESS then
        (if mode = RenderModeObj FULL_RENDERING then
           (case set_viewport_flags True s of
              (Raise e, s1) \<Rightarrow> (Raise e, s1)
            | (Return _, s1) \<Rightarrow> (Return (), s1\<lparr>render_mode := FULL_RENDERING\<rparr>))
         else if mode = RenderModeObj PARTIAL_RENDERING then
           (case set_viewport_flags False s of
              (Raise e, s1) \<Rightarrow> (Raise e, s1)
            | (Return _, s1) \<Rightarrow> (Return (), s1\<lparr>render_mode := PARTIAL_RENDERING\<rparr>))
         else if mode = RenderModeObj NO_RENDERING then
           (case set_viewport_flags False s of
              (Raise e, s1) \<Rightarrow> (Raise e, s1)
            | (Return _, s1) \<Rightarrow>
                (Return (), s1\<lparr>render_throttle_counter := Some 0, render_mode := NO_RENDERING\<rparr>))
         else (Raise ValueError, s))
      else (Return (), s))"

subsection \<open>Rendering\<close>

text \<open>
  \<^verbatim>\<open>render\<close>, lines 354--390. The argument is \<^verbatim>\<open>None\<close> by default. In
  \<^verbatim>\<open>NO_RENDERING\<close> mode the counter is incremented first; the base class renders
  (\<^verbatim>\<open>super().render()\<close>) only when the counter is a multiple of the period, and the counter
  is then set to 0. Python's \<^verbatim>\<open>%\<close> raises on a zero divisor and otherwise takes the sign
  of the divisor, as \<open>mod\<close> on \<open>int\<close> does. In the other modes the fabric interface, when
  there is one, is flushed before the base class renders.
\<close>

definition render :: "pyobj \<Rightarrow> ctx \<Rightarrow> world \<Rightarrow> unit outcome \<times> ctx \<times> world" where
  "render mode s w =
     (case (if mode \<noteq> NoneObj then set_render_mode mode s else (Return (), s)) of
        (Raise e, s1) \<Rightarrow> (Raise e, s1, w)
      | (Return _, s1) \<Rightarrow>
          if render_mode s1 = NO_RENDERING then
            (case render_throttle_counter s1 of
               None \<Rightarrow> (Raise AttributeError, s1, w)
             | Some c \<Rightarrow>
                 (let s2 = s1\<lparr>render_throttle_counter := Some (c + 1)\<rparr>
                  in case render_throttle_period s2 of
                       None \<Rightarrow> (Raise AttributeError, s2, w)
                     | Some p \<Rightarrow>
                         if p = 0 then (Raise ZeroDivisionError, s2, w)
                         else if (c + 1) mod p = 0 then
                           (Return (), s2\<lparr>render_throttle_counter := Some 0\<rparr>, emit BaseRender w)
                         else (Return (), s2, w)))
          else
            (Return (), s1,
             emit BaseRender (if fabric_iface s1 then emit FabricUpdate w else w)))"

subsection \<open>Construction\<close>

definition set_bool :: "string \<Rightarrow> bool \<Rightarrow> world \<Rightarrow> world" where
  "set_bool name v w = w\<lparr>carb_settings := (carb_settings w)(name \<mapsto> v)\<rparr>"

text \<open>
  \<^verbatim>\<open>__init__\<close>, lines 103--192. \<open>default_cfg\<close> is the value of \<^verbatim>\<open>SimulationCfg()\<close>, the
  default configuration, which is declared outside the sources at hand. The flag
  \<^verbatim>\<open>_is_headless\<close> is \<^verbatim>\<open>not carb_settings_iface.get("/app/window/enabled")\<close>, where a
  missing setting reads as \<^verbatim>\<open>None\<close>. The call of the base constructor is recorded with
  the physics step, the rendering step \<^verbatim>\<open>dt * substeps\<close>, the physics prim path and the
  device; what the base constructor does is not modelled.
\<close>

definition init :: "SimulationCfg \<Rightarrow> SimulationCfg option \<Rightarrow> world \<Rightarrow> ctx outcome \<times> world" where
  "init default_cfg cfg_arg w =
     (let c = (case cfg_arg of None \<Rightarrow> default_cfg | Some c' \<Rightarrow> c')
      in if \<not> stage w then
           (Raise (RuntimeError ''The stage has not been created. Did you run the simulator?''), w)
         else
           (let w1 = set_bool ''/persistent/omnihydra/useSceneGraphInstancing'' True w;
                w2 = set_bool ''/physics/physxDispatcher'' True w1;
                w3 = (if disable_contact_processing c
                      then set_bool ''/physics/disableContactProcessing'' True w2 else w2);
                w4 = set_bool ''/physics/collisionConeCustomGeometry'' False w3;
                w5 = set_bool ''/physics/collisionCylinderCustomGeometry'' False w4;
                headless = (carb_settings w5 ''/app/window/enabled'' \<noteq> Some True)
            in case (if headless then Return (HEADLESS, None, None, None, None)
                     else (case active_viewport w5 of
                             None \<Rightarrow> Raise AttributeError
                           | Some v \<Rightarrow>
                               Return (FULL_RENDERING, Some (v\<lparr>updates_enabled := True\<rparr>),
                                       workspace_window w5, Some 0, Some 5))) of
                 Raise e \<Rightarrow> (Raise e, w5)
               | Return (rm, vc, vw, counter, period) \<Rightarrow>
                   (let c1 = (if \<not> headless then c\<lparr>enable_scene_query_support := True\<rparr> else c);
                        s = \<lparr>cfg = c1, is_headless_attr = headless, render_mode = rm,
                             viewport_context = vc, viewport_window = vw,
                             render_throttle_counter = counter, render_throttle_period = period,
                             fabric_iface = False, isaacsim_version = isaac_version w5\<rparr>
                    in (Return s,
                        emit (BaseInit (dt c1) (dt c1 * real_of_int (substeps c1))
                                (physics_prim_path c1) (device c1)) w5))))"

definition is_headless :: "ctx \<Rightarrow> bool" where
  "is_headless s = is_headless_attr s"

subsection \<open>The version\<close>

text \<open>
  Python's \<^verbatim>\<open>int(s)\<close> on a string. A \<open>char\<close> stands for the code point of the same
  number, so the strings here are Python's strings of code points below 256. White space
  around the number is dropped, one sign may come first, and the digits may be separated by
  single underscores. Anything else raises \<^verbatim>\<open>ValueError\<close>.

  The white space that \<^verbatim>\<open>int\<close> drops is the C white space (code points 9 to 13 and 32)
  and, of the other code points below 256, the two Unicode spaces U+0085 and U+00A0, which
  \<^verbatim>\<open>int\<close> turns into blanks first. The separators U+001C to U+001F are not dropped:
  \<^verbatim>\<open>int\<close> leaves every code point below 127 as it is, and they are no C white space.

  Python refuses a numeral of more than \<^verbatim>\<open>sys.int_info.default_max_str_digits\<close> = 4300
  digits with \<^verbatim>\<open>ValueError\<close> (from version 3.11 on, and in the later releases of 3.7 to
  3.10); the digits are counted without the sign, the white space and the underscores.
\<close>

definition is_py_space :: "char \<Rightarrow> bool" where
  "is_py_space c = ((of_char c :: nat) \<in> {9, 10, 11, 12, 13, 32, 133, 160})"

definition int_max_str_digits :: nat where
  "int_max_str_digits = 4300"

definition digit_val :: "char \<Rightarrow> int option" where
  "digit_val c =
     (let n = (of_char c :: nat) in if 48 \<le> n \<and> n \<le> 57 then Some (int n - 48) else None)"

fun py_digits :: "int \<Rightarrow> string \<Rightarrow> int option" where
  "py_digits acc [] = Some acc"
| "py_digits acc [c] =
     (case digit_val c of None \<Rightarrow> None | Some k \<Rightarrow> Some (10 * acc + k))"
| "py_digits acc (c # d # ds) =
     (if c = CHR ''_'' then
        (case digit_val d of None \<Rightarrow> None | Some k \<Rightarrow> py_digits (10 * acc + k) ds)
      else
        (case digit_val c of None \<Rightarrow> None | Some k \<Rightarrow> py_digits (10 * acc + k) (d # ds)))"

definition py_strip :: "string \<Rightarrow> string" where
  "py_strip s = rev (dropWhile is_py_space (rev (dropWhile is_py_space s)))"

definition py_unsigned :: "string \<Rightarrow> int option" where
  "py_unsigned s =
     (case s of
        [] \<Rightarrow> None
      | d # ds \<Rightarrow>
          (case digit_val d of
             None \<Rightarrow> None
           | Some k \<Rightarrow>
               if int_max_str_digits < length (filter (\<lambda>c. c \<noteq> CHR ''_'') s) then None
               else py_digits k ds))"

definition py_int :: "string \<Rightarrow> int outcome" where
  "py_int s =
     (let t = py_strip s;
          r = (case t of
                 [] \<Rightarrow> None
               | c # cs \<Rightarrow>
                   if c = CHR ''-'' then map_option uminus (py_unsigned cs)
                   else if c = CHR ''+'' then py_unsigned cs
                   else py_unsigned t)
      in case r of None \<Rightarrow> Raise ValueError | Some n \<Rightarrow> Return n)"

text \<open>Indexing a sequence with a constant index: out of range raises \<^verbatim>\<open>IndexError\<close>.\<close>

definition seq_get :: "'a list \<Rightarrow> nat \<Rightarrow> 'a outcome" where
  "seq_get xs i = (if i < length xs then Return (xs ! i) else Raise IndexError)"

definition int_at :: "string list \<Rightarrow> nat \<Rightarrow> int outcome" where
  "int_at v i = (case seq_get v i of Raise e \<Rightarrow> Raise e | Return x \<Rightarrow> py_int x)"

text \<open>
  \<^verbatim>\<open>get_version\<close>, lines 206--217: the three conversions are evaluated from left to
  right, and the first exception leaves the method.
\<close>

definition get_version :: "ctx \<Rightarrow> (int \<times> int \<times> int) outcome" where
  "get_version s =
     (case int_at (isaacsim_version s) 2 of
        Raise e \<Rightarrow> Raise e
      | Return a \<Rightarrow>
          (case int_at (isaacsim_version s) 3 of
             Raise e \<Rightarrow> Raise e
           | Return b \<Rightarrow>
               (case int_at (isaacsim_version s) 4 of
                  Raise e \<Rightarrow> Raise e
                | Return c \<Rightarrow> Return (a, b, c))))"

subsection \<open>Reset\<close>

text \<open>
  The two methods of the base class that \<^verbatim>\<open>reset\<close> uses: the base class keeps its
  timeline callbacks by name. Registering is recorded as a call and adds the name; nothing
  here stops a second registration under the same name. The other calls into the
  simulator, the reset of the base class among them, leave the registered names as they
  are.
\<close>

definition timeline_callback_exists :: "string \<Rightarrow> world \<Rightarrow> bool" where
  "timeline_callback_exists name w = (name \<in> set (timeline_callback_functions w))"

definition add_timeline_callback :: "string \<Rightarrow> world \<Rightarrow> world" where
  "add_timeline_callback name w =
     emit (AddTimelineCallback name)
       (w\<lparr>timeline_callback_functions := timeline_callback_functions w @ [name]\<rparr>)"

text \<open>
  \<^verbatim>\<open>reset\<close>, lines 311--325. The method changes no attribute of the object and has no
  \<^verbatim>\<open>raise\<close> of its own, so the model returns the simulator's state only.
\<close>

definition reset :: "bool \<Rightarrow> ctx \<Rightarrow> world \<Rightarrow> world" where
  "reset soft s w =
     (let w1 = (if \<not> soft then emit ForceLoadPhysicsFromUsd w else w);
          w2 = emit (BaseReset soft) w1
      in if shutdown_app_on_stop (cfg s) \<and> \<not> timeline_callback_exists ''shutdown_app_on_stop'' w2
         then add_timeline_callback ''shutdown_app_on_stop'' w2
         else w2)"

fun resets :: "nat \<Rightarrow> ctx \<Rightarrow> world \<Rightarrow> world" where
  "resets 0 s w = w"
| "resets (Suc n) s w = resets n s (reset False s w)"

subsection \<open>Stepping\<close>

text \<open>
  The timeline is played, paused and stopped by the user, through the simulator. The class
  runs in one thread with the simulator, so the timeline can change only inside a call
  into the simulator: what \<^verbatim>\<open>is_playing()\<close> and \<^verbatim>\<open>is_stopped()\<close> read is a function
  \<open>tline\<close> of the calls made so far. Every behaviour of the user is one such function.
\<close>

datatype timeline = Playing | Paused | Stopped

definition is_playing :: "(call list \<Rightarrow> timeline) \<Rightarrow> world \<Rightarrow> bool" where
  "is_playing tline w = (tline (calls w) = Playing)"

definition is_stopped :: "(call list \<Rightarrow> timeline) \<Rightarrow> world \<Rightarrow> bool" where
  "is_stopped tline w = (tline (calls w) = Stopped)"

text \<open>
  The loop of lines 341--345. It has no bound: when the timeline never plays and never
  stops, the loop does not end, and \<open>poll\<close> is \<open>None\<close>.
\<close>

partial_function (option) poll ::
  "(call list \<Rightarrow> timeline) \<Rightarrow> ctx \<Rightarrow> world \<Rightarrow> (unit outcome \<times> ctx \<times> world) option" where
  "poll tline s w =
     (if is_playing tline w then Some (Return (), s, w)
      else
        (case render NoneObj s w of
           (Raise e, s1, w1) \<Rightarrow> Some (Raise e, s1, w1)
         | (Return _, s1, w1) \<Rightarrow>
             if is_stopped tline w1 then Some (Return (), s1, w1) else poll tline s1 w1))"

text \<open>\<^verbatim>\<open>step\<close>, lines 327--352.\<close>

definition step ::
  "(call list \<Rightarrow> timeline) \<Rightarrow> bool \<Rightarrow> ctx \<Rightarrow> world \<Rightarrow> (unit outcome \<times> ctx \<times> world) option" where
  "step tline render_arg s w =
     (if \<not> is_playing tline w then
        (case poll tline s w of
           None \<Rightarrow> None
         | Some (Raise e, s1, w1) \<Rightarrow> Some (Raise e, s1, w1)
         | Some (Return _, s1, w1) \<Rightarrow>
             Some (Return (), s1, emit (BaseStep render_arg) (emit AppUpdate w1)))
      else Some (Return (), s, emit (BaseStep render_arg) w))"

subsection \<open>Solver parameters\<close>

text \<open>
  \<^verbatim>\<open>np.linalg.norm\<close> of a vector of three numbers, and the division of a number by the
  norm (lines 447--448). A division by zero gives NaN for 0/0 and an infinity otherwise.
\<close>

definition np_linalg_norm :: "real \<times> real \<times> real \<Rightarrow> real" where
  "np_linalg_norm g = (case g of (x, y, z) \<Rightarrow> sqrt (x * x + y * y + z * z))"

definition np_true_divide :: "real \<Rightarrow> real \<Rightarrow> npfloat" where
  "np_true_divide x y =
     (if y = 0 then (if x = 0 then NaN else if 0 < x then PosInf else NegInf)
      else Finite (x / y))"

text \<open>
  \<^verbatim>\<open>_set_additional_physx_params\<close>, lines 428--471. The physics material is created by the
  function held in the configuration and bound by \<^verbatim>\<open>bind_physics_material\<close>; both are
  recorded as calls.
\<close>

definition set_additional_physx_params :: "ctx \<Rightarrow> world \<Rightarrow> unit outcome \<times> world" where
  "set_additional_physx_params s w =
     (if \<not> physx_scene_api w then
        (Raise (RuntimeError ''Physics scene API is None! Please create the scene first.''), w)
      else
        (let w1 = emit (EnableCcd (enable_ccd (physx (cfg s)))) w;
             w2 = emit (CreateGpuCollisionStackSizeAttr (gpu_collision_stack_size (physx (cfg s)))) w1;
             gravity_magnitude = np_linalg_norm (gravity (cfg s));
             w3 = (case gravity (cfg s) of (x, y, z) \<Rightarrow>
                     emit (CreateGravityDirectionAttr
                             (np_true_divide x gravity_magnitude)
                             (np_true_divide y gravity_magnitude)
                             (np_true_divide z gravity_magnitude)) w2);
             w4 = emit (CreateGravityMagnitudeAttr gravity_magnitude) w3
         in case get_version s of
              Raise e \<Rightarrow> (Raise e, w4)
            | Return v \<Rightarrow>
                (let w5 =
                       (if fst v = 2022 then
                          emit (CreateMaxIterationCountAttr (max_position_iteration_count (physx (cfg s))))
                            (emit (CreateMinIterationCountAttr (min_position_iteration_count (physx (cfg s)))) w4)
                        else
                          emit (CreateMaxVelocityIterationCountAttr (max_velocity_iteration_count (physx (cfg s))))
                            (emit (CreateMinVelocityIterationCountAttr (min_velocity_iteration_count (physx (cfg s))))
                               (emit (CreateMaxPositionIterationCountAttr (max_position_iteration_count (physx (cfg s))))
                                  (emit (CreateMinPositionIterationCountAttr (min_position_iteration_count (physx (cfg s)))) w4))));
                     material_path = physics_prim_path (cfg s) @ ''/defaultMaterial'';
                     w6 = emit (CreatePhysicsMaterial material_path) w5;
                     w7 = emit (BindPhysicsMaterial (physics_prim_path (cfg s)) material_path) w6
                 in (Return (), w7))))"

subsection \<open>Sequences of calls, and what the statements below speak of\<close>

text \<open>Several calls recorded at once.\<close>

definition emits :: "call list \<Rightarrow> world \<Rightarrow> world" where
  "emits cs w = w\<lparr>calls := calls w @ cs\<rparr>"

text \<open>\<open>n\<close> calls of \<^verbatim>\<open>render()\<close> in a row; the first exception ends the row.\<close>

fun renders :: "nat \<Rightarrow> ctx \<Rightarrow> world \<Rightarrow> unit outcome \<times> ctx \<times> world" where
  "renders 0 s w = (Return (), s, w)"
| "renders (Suc n) s w =
     (case render NoneObj s w of
        (Raise e, s1, w1) \<Rightarrow> (Raise e, s1, w1)
      | (Return _, s1, w1) \<Rightarrow> renders n s1 w1)"

text \<open>
  The calls that \<^verbatim>\<open>render\<close> makes: the base class's render and the flush of the fabric
  interface. Neither steps the physics.
\<close>

definition render_call :: "call \<Rightarrow> bool" where
  "render_call c = (c = BaseRender \<or> c = FabricUpdate)"

text \<open>The targets for which \<^verbatim>\<open>set_render_mode\<close> has a branch.\<close>

definition supported_mode :: "pyobj \<Rightarrow> bool" where
  "supported_mode mode =
     (mode = RenderModeObj FULL_RENDERING \<or> mode = RenderModeObj PARTIAL_RENDERING
      \<or> mode = RenderModeObj NO_RENDERING)"

text \<open>
  The decimal numeral of a sequence of digits, most significant first, and the number it
  stands for.
\<close>

definition digit_char :: "nat \<Rightarrow> char" where
  "digit_char d = ''0123456789'' ! d"

definition decimal_value :: "nat list \<Rightarrow> int" where
  "decimal_value ds = foldl (\<lambda>a d. 10 * a + int d) 0 ds"

text \<open>
  The throttle attributes as \<^verbatim>\<open>__init__\<close>, \<^verbatim>\<open>set_render_mode\<close> and \<^verbatim>\<open>render\<close> keep
  them: outside headless mode both exist and the counter is below the period.
\<close>

definition throttle_ok :: "ctx \<Rightarrow> bool" where
  "throttle_ok s =
     (render_mode s = HEADLESS \<or>
      (case (render_throttle_counter s, render_throttle_period s) of
         (Some c, Some p) \<Rightarrow> 0 \<le> c \<and> c < p
       | _ \<Rightarrow> False))"

text \<open>
  What the object makes of the calls of \<^verbatim>\<open>render()\<close> that lead up to and include one
  render of the base class: the calls recorded, and the attributes afterwards.
\<close>

definition render_emits :: "ctx \<Rightarrow> call list" where
  "render_emits s =
     (if render_mode s \<noteq> NO_RENDERING \<and> fabric_iface s then [FabricUpdate, BaseRender]
      else [BaseRender])"

definition after_render :: "ctx \<Rightarrow> ctx" where
  "after_render s =
     (if render_mode s = NO_RENDERING then s\<lparr>render_throttle_counter := Some 0\<rparr> else s)"

definition shutdown_cb :: call where
  "shutdown_cb = AddTimelineCallback ''shutdown_app_on_stop''"

subsection \<open>Example states\<close>

definition example_cfg :: SimulationCfg where
  "example_cfg =
     \<lparr>dt = 1 / 60, substeps = 1, device = ''cuda:0'', physics_prim_path = ''/physicsScene'',
      gravity = (0, 0, - 981 / 100), disable_contact_processing = False,
      enable_scene_query_support = False, use_flatcache = True, use_fabric = True,
      shutdown_app_on_stop = True,
      physx = \<lparr>enable_ccd = False, gpu_collision_stack_size = 67108864,
               min_position_iteration_count = 1, max_position_iteration_count = 255,
               min_velocity_iteration_count = 0, max_velocity_iteration_count = 255\<rparr>\<rparr>"

text \<open>A simulator with a window, and one without.\<close>

definition gui_world :: world where
  "gui_world =
     \<lparr>stage = True, carb_settings = [''/app/window/enabled'' \<mapsto> True],
      active_viewport = Some \<lparr>updates_enabled = False\<rparr>,
      workspace_window = Some \<lparr>visible = True\<rparr>,
      isaac_version = [''2023.1.0'', ''rc.9'', ''2023'', ''1'', ''0'', ''rc'', ''release'', ''abc''],
      physx_scene_api = True, timeline_callback_functions = [], calls = []\<rparr>"

definition headless_world :: world where
  "headless_world =
     gui_world\<lparr>carb_settings := Map.empty, active_viewport := None, workspace_window := None\<rparr>"

text \<open>The objects that \<^verbatim>\<open>__init__\<close> builds in the two (lemma \<open>init_examples\<close>).\<close>

definition gui_ctx :: ctx where
  "gui_ctx =
     \<lparr>cfg = example_cfg\<lparr>enable_scene_query_support := True\<rparr>, is_headless_attr = False,
      render_mode = FULL_RENDERING,
      viewport_context = Some \<lparr>updates_enabled = True\<rparr>,
      viewport_window = Some \<lparr>visible = True\<rparr>,
      render_throttle_counter = Some 0, render_throttle_period = Some 5,
      fabric_iface = False, isaacsim_version = isaac_version gui_world\<rparr>"

definition headless_ctx :: ctx where
  "headless_ctx =
     \<lparr>cfg = example_cfg, is_headless_attr = True, render_mode = HEADLESS,
      viewport_context = None, viewport_window = None,
      render_throttle_counter = None, render_throttle_period = None,
      fabric_iface = False, isaacsim_version = isaac_version headless_world\<rparr>"

text \<open>The simulator with a window, after the object has been built.\<close>

definition started_world :: world where
  "started_world = snd (init example_cfg None gui_world)"

text \<open>The object after \<^verbatim>\<open>set_render_mode(RenderMode.NO_RENDERING)\<close> (lemma \<open>no_rendering_example\<close>).\<close>

definition no_rendering_ctx :: ctx where
  "no_rendering_ctx =
     gui_ctx\<lparr>render_mode := NO_RENDERING,
             viewport_context := Some \<lparr>updates_enabled = False\<rparr>,
             viewport_window := Some \<lparr>visible = False\<rparr>\<rparr>"

text \<open>The object with the gravity switched off in its configuration.\<close>

definition zero_gravity_ctx :: ctx where
  "zero_gravity_ctx = gui_ctx\<lparr>cfg := (cfg gui_ctx)\<lparr>gravity := (0, 0, 0)\<rparr>\<rparr>"

text \<open>A user who presses play while the second render of the base class runs.\<close>

definition play_after_two :: "call list \<Rightarrow> timeline" where
  "play_after_two h = (if 2 \<le> count_list h BaseRender then Playing else Paused)"

section \<open>Properties\<close>

subsection \<open>The example states are states of the program\<close>

lemma init_examples:
  "fst (init example_cfg None gui_world) = Return gui_ctx"
  "fst (init example_cfg None headless_world) = Return headless_ctx"
  by (simp_all add: init_def gui_world_def headless_world_def gui_ctx_def headless_ctx_def
        set_bool_def emit_def example_cfg_def Let_def)

lemma started_world_fields:
  "calls started_world = [BaseInit (1 / 60) (1 / 60) ''/physicsScene'' ''cuda:0'']"
  "physx_scene_api started_world"
  "timeline_callback_functions started_world = []"
  by (simp_all add: started_world_def init_def gui_world_def set_bool_def emit_def
        example_cfg_def Let_def)

lemma no_rendering_example:
  "set_render_mode (RenderModeObj NO_RENDERING) gui_ctx = (Return (), no_rendering_ctx)"
  by (simp add: set_render_mode_def set_viewport_flags_def gui_ctx_def no_rendering_ctx_def)

subsection \<open>The render mode\<close>

text \<open>
  Claim C2. \<^verbatim>\<open>RenderMode.HEADLESS\<close> is absorbing: when the current render mode is
  \<^verbatim>\<open>HEADLESS\<close>, \<^verbatim>\<open>set_render_mode(x)\<close> returns for every argument \<open>x\<close>, a render mode or
  any other object, and leaves every attribute of the object as it was: the render mode,
  the viewport and window handles, the throttle attributes.
\<close>

theorem headless_absorbing:
  "render_mode s = HEADLESS \<Longrightarrow> set_render_mode x s = (Return (), s)"
  by (simp add: set_render_mode_def)

theorem headless_absorbing_witness:
  "render_mode headless_ctx = HEADLESS \<and>
   set_render_mode (RenderModeObj FULL_RENDERING) headless_ctx = (Return (), headless_ctx)"
  using headless_absorbing [of headless_ctx "RenderModeObj FULL_RENDERING"]
  by (simp add: headless_ctx_def)

text \<open>
  Claim C4, as the specification states it: \<^verbatim>\<open>set_render_mode(mode)\<close> raises for every
  argument that is not a supported render mode. In headless mode it does not: the integer 7
  is no render mode, and the call returns. (\<^verbatim>\<open>ValueError\<close> is the exception that the
  specification calls InvalidArgument.)
\<close>

theorem unsupported_mode_headless_counterexample:
  "\<not> supported_mode (IntObj 7) \<and>
   render_mode headless_ctx = HEADLESS \<and>
   set_render_mode (IntObj 7) headless_ctx = (Return (), headless_ctx)"
  by (simp add: supported_mode_def set_render_mode_def headless_ctx_def)

text \<open>
  Claim C4, amended: for every argument that is not \<^verbatim>\<open>FULL_RENDERING\<close>,
  \<^verbatim>\<open>PARTIAL_RENDERING\<close> or \<^verbatim>\<open>NO_RENDERING\<close>, \<^verbatim>\<open>set_render_mode(mode)\<close> raises
  \<^verbatim>\<open>ValueError\<close> when the current render mode is not \<^verbatim>\<open>HEADLESS\<close>, and returns without
  raising when it is; in both cases the object is left as it was.
\<close>

theorem unsupported_mode_raises:
  "\<not> supported_mode mode \<Longrightarrow>
   set_render_mode mode s =
     (if render_mode s = HEADLESS then (Return (), s) else (Raise ValueError, s))"
  by (cases "render_mode s") (auto simp add: set_render_mode_def supported_mode_def)

theorem unsupported_mode_raises_witness:
  "\<not> supported_mode (IntObj 7) \<and>
   set_render_mode (IntObj 7) gui_ctx = (Raise ValueError, gui_ctx) \<and>
   set_render_mode (IntObj 7) headless_ctx = (Return (), headless_ctx)"
proof -
  have h: "\<not> supported_mode (IntObj 7)" by (simp add: supported_mode_def)
  from unsupported_mode_raises [OF h, of gui_ctx] unsupported_mode_raises [OF h, of headless_ctx] h
  show ?thesis by (simp add: gui_ctx_def headless_ctx_def)
qed

text \<open>
  Claim C9. \<^verbatim>\<open>set_render_mode\<close> is atomic on the error of an unsupported target: when
  the call raises \<^verbatim>\<open>ValueError\<close>, every attribute of the object, so the render mode, the
  viewport's \<^verbatim>\<open>updates_enabled\<close> and the window's \<^verbatim>\<open>visible\<close>, is after the call what it
  was before.
\<close>

theorem set_render_mode_atomic:
  "fst (set_render_mode mode s) = Raise ValueError \<Longrightarrow> snd (set_render_mode mode s) = s"
  by (auto simp add: set_render_mode_def set_viewport_flags_def Let_def
      split: if_splits option.splits prod.splits outcome.splits)

theorem set_render_mode_atomic_witness:
  "fst (set_render_mode (StrObj ''full'') gui_ctx) = Raise ValueError \<and>
   snd (set_render_mode (StrObj ''full'') gui_ctx) = gui_ctx"
proof -
  have h: "fst (set_render_mode (StrObj ''full'') gui_ctx) = Raise ValueError"
    by (simp add: set_render_mode_def gui_ctx_def)
  from set_render_mode_atomic [OF h] h show ?thesis by simp
qed

subsection \<open>Construction\<close>

text \<open>
  Claim C5. For every configuration, given or defaulted, constructing the object when the
  stage does not exist raises \<^verbatim>\<open>RuntimeError\<close> (the specification's PreconditionError),
  and the simulator is left as it was: no setting is written and no call is made, so the
  constructor of the base class is not called.
\<close>

theorem init_without_stage:
  "\<not> stage w \<Longrightarrow>
   init default_cfg cfg_arg w =
     (Raise (RuntimeError ''The stage has not been created. Did you run the simulator?''), w)
   \<and> calls (snd (init default_cfg cfg_arg w)) = calls w"
  by (simp add: init_def)

theorem init_without_stage_witness:
  "\<not> stage (gui_world\<lparr>stage := False\<rparr>) \<and>
   init example_cfg None (gui_world\<lparr>stage := False\<rparr>) =
     (Raise (RuntimeError ''The stage has not been created. Did you run the simulator?''),
      gui_world\<lparr>stage := False\<rparr>)"
  using init_without_stage [of "gui_world\<lparr>stage := False\<rparr>" example_cfg None]
  by simp

text \<open>With a stage, the constructor of the base class is called, last.\<close>

lemma set_bool_fields:
  "calls (set_bool name v w) = calls w"
  "active_viewport (set_bool name v w) = active_viewport w"
  "workspace_window (set_bool name v w) = workspace_window w"
  "isaac_version (set_bool name v w) = isaac_version w"
  by (simp_all add: set_bool_def)

lemma init_with_stage:
  "stage w \<Longrightarrow> init default_cfg cfg_arg w = (Return s, w') \<Longrightarrow>
   calls w' = calls w @ [BaseInit (dt (cfg s)) (dt (cfg s) * real_of_int (substeps (cfg s)))
                           (physics_prim_path (cfg s)) (device (cfg s))]"
  by (auto simp add: init_def Let_def emit_def set_bool_fields split: if_splits option.splits)

subsection \<open>The version\<close>

text \<open>
  Claim C8. \<^verbatim>\<open>get_version()\<close> returns a 3-tuple of integers, and the tuple is made of
  what \<^verbatim>\<open>int\<close> parses from the elements [2], [3] and [4] of the raw version sequence, in
  this order: the method returns \<open>(a, b, c)\<close> exactly when the sequence has these three
  elements and they parse to \<open>a\<close>, \<open>b\<close> and \<open>c\<close>. (It returns nothing else: when an
  element is missing or is no integer literal, the exception of the indexing or of
  \<^verbatim>\<open>int\<close> leaves the method.)
\<close>

theorem get_version_parses:
  "get_version s = Return (a, b, c) \<longleftrightarrow>
     4 < length (isaacsim_version s) \<and>
     py_int (isaacsim_version s ! 2) = Return a \<and>
     py_int (isaacsim_version s ! 3) = Return b \<and>
     py_int (isaacsim_version s ! 4) = Return c"
  by (auto simp add: get_version_def int_at_def seq_get_def split: outcome.splits)

theorem get_version_parses_witness:
  "get_version gui_ctx = Return (2023, 1, 0) \<and>
   4 < length (isaacsim_version gui_ctx) \<and>
   py_int (isaacsim_version gui_ctx ! 2) = Return 2023 \<and>
   py_int (isaacsim_version gui_ctx ! 3) = Return 1 \<and>
   py_int (isaacsim_version gui_ctx ! 4) = Return 0"
proof -
  have "py_int ''2023'' = Return 2023" "py_int ''1'' = Return 1" "py_int ''0'' = Return 0"
    by (simp_all add: py_int_def py_strip_def is_py_space_def py_unsigned_def
          int_max_str_digits_def digit_val_def)
  then show ?thesis
    using get_version_parses [of gui_ctx 2023 1 0]
    by (simp add: gui_ctx_def gui_world_def)
qed

text \<open>A sequence that is too short, and an element that is no integer literal.\<close>

lemma get_version_raises:
  "get_version (gui_ctx\<lparr>isaacsim_version := [''2023.1.0'', ''rc.9'', ''2023'', ''1'']\<rparr>)
     = Raise IndexError"
  "get_version (gui_ctx\<lparr>isaacsim_version := [''2023.1.0'', ''rc.9'', ''2023'', ''1'', ''0rc'']\<rparr>)
     = Raise ValueError"
  by (simp_all add: get_version_def int_at_def seq_get_def py_int_def py_strip_def
        is_py_space_def py_unsigned_def int_max_str_digits_def digit_val_def)

text \<open>
  On a plain decimal numeral \<^verbatim>\<open>int\<close> gives the number it stands for, so \<^verbatim>\<open>get_version\<close>
  returns the numbers written in the elements [2], [3] and [4].
\<close>

lemma digit_char_facts:
  assumes "d < 10"
  shows "digit_val (digit_char d) = Some (int d)"
    and "digit_char d \<noteq> CHR ''_''" and "digit_char d \<noteq> CHR ''-''" and "digit_char d \<noteq> CHR ''+''"
    and "\<not> is_py_space (digit_char d)"
proof -
  from assms have "d \<in> {0, 1, 2, 3, 4, 5, 6, 7, 8, 9}" by auto
  then have "digit_val (digit_char d) = Some (int d) \<and>
      digit_char d \<noteq> CHR ''_'' \<and> digit_char d \<noteq> CHR ''-'' \<and> digit_char d \<noteq> CHR ''+'' \<and>
      \<not> is_py_space (digit_char d)"
    by (auto simp add: digit_char_def digit_val_def is_py_space_def)
  then show "digit_val (digit_char d) = Some (int d)"
    and "digit_char d \<noteq> CHR ''_''" and "digit_char d \<noteq> CHR ''-''" and "digit_char d \<noteq> CHR ''+''"
    and "\<not> is_py_space (digit_char d)"
    by simp_all
qed

lemma py_digits_decimal:
  "\<forall>d\<in>set ds. d < 10 \<Longrightarrow>
   py_digits acc (map digit_char ds) = Some (foldl (\<lambda>a d. 10 * a + int d) acc ds)"
proof (induction ds arbitrary: acc)
  case Nil
  then show ?case by simp
next
  case (Cons d ds)
  then have d: "d < 10" and ds: "\<forall>d\<in>set ds. d < 10" by auto
  show ?case
  proof (cases ds)
    case Nil
    then show ?thesis by (simp add: digit_char_facts [OF d])
  next
    case (Cons e es)
    with Cons.IH [OF ds, of "10 * acc + int d"] show ?thesis
      by (simp add: digit_char_facts [OF d])
  qed
qed

lemma py_strip_decimal:
  assumes "\<forall>d\<in>set ds. d < 10"
  shows "py_strip (map digit_char ds) = map digit_char ds"
proof (cases ds rule: rev_cases)
  case Nil
  then show ?thesis by (simp add: py_strip_def)
next
  case (snoc es e)
  with assms have e: "e < 10" by simp
  have 1: "dropWhile is_py_space (map digit_char ds) = map digit_char ds"
  proof (cases ds)
    case Nil
    then show ?thesis by simp
  next
    case (Cons a as)
    with assms have "a < 10" by simp
    with Cons show ?thesis by (simp add: digit_char_facts)
  qed
  have 2: "dropWhile is_py_space (rev (map digit_char ds)) = rev (map digit_char ds)"
    using snoc e by (simp add: digit_char_facts)
  show ?thesis by (simp add: py_strip_def 1 2)
qed

lemma filter_decimal:
  "\<forall>d\<in>set ds. d < 10 \<Longrightarrow> filter ((\<lambda>c. c \<noteq> CHR ''_'') \<circ> digit_char) ds = ds"
  by (induction ds) (simp_all add: digit_char_facts)

lemma py_int_decimal:
  assumes "ds \<noteq> []" and "\<forall>d\<in>set ds. d < 10" and "length ds \<le> int_max_str_digits"
  shows "py_int (map digit_char ds) = Return (decimal_value ds)"
proof -
  from assms(1) obtain d es where ds: "ds = d # es" by (cases ds) auto
  with assms(2) have d: "d < 10" and es: "\<forall>d\<in>set es. d < 10" by auto
  have "py_unsigned (map digit_char ds) = Some (decimal_value ds)"
    using assms(3)
    by (simp add: py_unsigned_def ds digit_char_facts [OF d] py_digits_decimal [OF es]
          decimal_value_def filter_decimal [OF es])
  then show ?thesis
    using py_strip_decimal [OF assms(2)]
    by (simp add: py_int_def ds digit_char_facts [OF d])
qed

lemma py_int_too_long:
  assumes "\<forall>d\<in>set ds. d < 10" and "int_max_str_digits < length ds"
  shows "py_int (map digit_char ds) = Raise ValueError"
proof -
  from assms(2) obtain d es where ds: "ds = d # es" by (cases ds) auto
  with assms(1) have d: "d < 10" and es: "\<forall>d\<in>set es. d < 10" by auto
  have "py_unsigned (map digit_char ds) = None"
    using assms(2)
    by (simp add: py_unsigned_def ds digit_char_facts [OF d] filter_decimal [OF es])
  then show ?thesis
    using py_strip_decimal [OF assms(1)]
    by (simp add: py_int_def ds digit_char_facts [OF d])
qed

lemma get_version_decimal:
  assumes "4 < length (isaacsim_version s)"
    and "isaacsim_version s ! 2 = map digit_char as" and "as \<noteq> []" and "\<forall>d\<in>set as. d < 10"
    and "length as \<le> int_max_str_digits"
    and "isaacsim_version s ! 3 = map digit_char bs" and "bs \<noteq> []" and "\<forall>d\<in>set bs. d < 10"
    and "length bs \<le> int_max_str_digits"
    and "isaacsim_version s ! 4 = map digit_char cs" and "cs \<noteq> []" and "\<forall>d\<in>set cs. d < 10"
    and "length cs \<le> int_max_str_digits"
  shows "get_version s = Return (decimal_value as, decimal_value bs, decimal_value cs)"
  using assms
  by (simp add: get_version_def int_at_def seq_get_def py_int_decimal)

text \<open>White space, signs and underscores as \<^verbatim>\<open>int\<close> takes them.\<close>

lemma py_int_examples:
  "py_int [CHR 0x1C, CHR ''5'', CHR 0x1D] = Raise ValueError"
  "py_int [CHR 0xA0, CHR ''5''] = Return 5"
  "py_int [CHR 0x85, CHR ''5'', CHR 0x85] = Return 5"
  "py_int [CHR 0x1C, CHR ''5'', CHR 0xA0] = Raise ValueError"
  "py_int [CHR ''5'', CHR 0xA0, CHR 0xE9] = Raise ValueError"
  "py_int [CHR ''5'', CHR 0x00] = Raise ValueError"
  "py_int '' -1_000 '' = Return (- 1000)"
  "py_int ''007'' = Return 7"
  "py_int ''-0'' = Return 0"
  "py_int ''0_7'' = Return 7"
  "py_int ''_12'' = Raise ValueError"
  "py_int ''1__2'' = Raise ValueError"
  "py_int ''12_'' = Raise ValueError"
  "py_int ''- 5'' = Raise ValueError"
  "py_int ''+-5'' = Raise ValueError"
  "py_int ''-_1'' = Raise ValueError"
  "py_int ''+'' = Raise ValueError"
  "py_int [] = Raise ValueError"
  by (simp_all add: py_int_def py_strip_def is_py_space_def py_unsigned_def
        int_max_str_digits_def digit_val_def)

subsection \<open>Reset\<close>

lemma reset_count:
  "count_list (calls (reset soft s w)) shutdown_cb =
     count_list (calls w) shutdown_cb +
     (if shutdown_app_on_stop (cfg s) \<and> \<not> timeline_callback_exists ''shutdown_app_on_stop'' w
      then 1 else 0)"
  by (simp add: reset_def Let_def emit_def add_timeline_callback_def
        timeline_callback_exists_def shutdown_cb_def)

lemma reset_exists:
  "timeline_callback_exists ''shutdown_app_on_stop'' (reset soft s w) \<longleftrightarrow>
     shutdown_app_on_stop (cfg s) \<or> timeline_callback_exists ''shutdown_app_on_stop'' w"
  by (auto simp add: reset_def Let_def emit_def add_timeline_callback_def
        timeline_callback_exists_def)

text \<open>
  Claim C6. With the flag \<^verbatim>\<open>shutdown_app_on_stop\<close> set, any number \<open>n\<close> of calls of
  \<^verbatim>\<open>reset(soft=False)\<close> registers the shutdown callback at most once: once when \<open>n > 0\<close>
  and the callback is not registered yet, and not at all otherwise.
\<close>

theorem reset_registers_once:
  "shutdown_app_on_stop (cfg s) \<Longrightarrow>
   count_list (calls (resets n s w)) shutdown_cb =
     count_list (calls w) shutdown_cb +
     (if n = 0 \<or> timeline_callback_exists ''shutdown_app_on_stop'' w then 0 else 1)"
proof (induction n arbitrary: w)
  case 0
  then show ?case by simp
next
  case (Suc n)
  show ?case
    using Suc.prems Suc.IH [OF Suc.prems, of "reset False s w"]
    by (simp add: reset_count reset_exists)
qed

theorem reset_registers_once_witness:
  "shutdown_app_on_stop (cfg gui_ctx) \<and>
   count_list (calls (resets 3 gui_ctx started_world)) shutdown_cb = 1"
proof -
  have h: "shutdown_app_on_stop (cfg gui_ctx)" by (simp add: gui_ctx_def example_cfg_def)
  from reset_registers_once [OF h, of 3 started_world] h show ?thesis
    by (simp add: started_world_fields timeline_callback_exists_def shutdown_cb_def)
qed

text \<open>The calls of three resets in a row.\<close>

lemma resets_example:
  "calls (resets 3 gui_ctx started_world) =
     [BaseInit (1 / 60) (1 / 60) ''/physicsScene'' ''cuda:0'',
      ForceLoadPhysicsFromUsd, BaseReset False, AddTimelineCallback ''shutdown_app_on_stop'',
      ForceLoadPhysicsFromUsd, BaseReset False, ForceLoadPhysicsFromUsd, BaseReset False]"
  by (simp add: numeral_3_eq_3 reset_def Let_def emit_def add_timeline_callback_def
        timeline_callback_exists_def gui_ctx_def started_world_fields example_cfg_def)

subsection \<open>The render throttle\<close>

text \<open>One call of \<^verbatim>\<open>render()\<close> in \<^verbatim>\<open>NO_RENDERING\<close> mode, with the counter below the period.\<close>

lemma render_throttled:
  assumes "render_mode s = NO_RENDERING"
    and "render_throttle_counter s = Some c" and "render_throttle_period s = Some p"
    and "0 \<le> c" and "c < p"
  shows "render NoneObj s w =
     (if c + 1 = p
      then (Return (), s\<lparr>render_throttle_counter := Some 0\<rparr>, emit BaseRender w)
      else (Return (), s\<lparr>render_throttle_counter := Some (c + 1)\<rparr>, w))"
proof -
  have "(c + 1) mod p = 0 \<longleftrightarrow> c + 1 = p"
  proof (cases "c + 1 = p")
    case True
    then show ?thesis by simp
  next
    case False
    with assms(4,5) have "(c + 1) mod p = c + 1" by simp
    with False assms(4) show ?thesis by simp
  qed
  then show ?thesis
    using assms by (auto simp add: render_def Let_def)
qed

text \<open>
  \<open>n\<close> calls in a row: the base class renders \<open>(c + n) div p\<close> times, and the counter ends
  at \<open>(c + n) mod p\<close>.
\<close>

lemma renders_throttled:
  assumes "render_mode s = NO_RENDERING"
    and "render_throttle_counter s = Some c" and "render_throttle_period s = Some p"
    and "0 \<le> c" and "c < p"
  shows "renders n s w =
     (Return (), s\<lparr>render_throttle_counter := Some ((c + int n) mod p)\<rparr>,
      emits (replicate (nat ((c + int n) div p)) BaseRender) w)"
  using assms
proof (induction n arbitrary: s w c)
  case 0
  then show ?case by (simp add: emits_def)
next
  case (Suc n)
  show ?case
  proof (cases "c + 1 = p")
    case True
    let ?s1 = "s\<lparr>render_throttle_counter := Some 0\<rparr>"
    have r: "render NoneObj s w = (Return (), ?s1, emit BaseRender w)"
      using render_throttled [OF Suc.prems] True by simp
    have ih: "renders n ?s1 (emit BaseRender w) =
      (Return (), ?s1\<lparr>render_throttle_counter := Some ((0 + int n) mod p)\<rparr>,
       emits (replicate (nat ((0 + int n) div p)) BaseRender) (emit BaseRender w))"
      using Suc.prems by (intro Suc.IH) auto
    have p: "0 < p" using Suc.prems by simp
    have e0: "c + int (Suc n) = p + int n" using True by simp
    have e1: "(c + int (Suc n)) mod p = int n mod p"
      unfolding e0 by simp
    have "(c + int (Suc n)) div p = (p + int n) div p" unfolding e0 by simp
    also have "\<dots> = 1 + int n div p" using p by simp
    finally have e2: "nat ((c + int (Suc n)) div p) = Suc (nat (int n div p))"
      using p by (simp add: nat_add_distrib pos_imp_zdiv_nonneg_iff)
    have "renders (Suc n) s w = renders n ?s1 (emit BaseRender w)"
      by (simp add: r)
    also note ih
    finally show ?thesis
      unfolding e1 e2 by (simp add: emit_def emits_def)
  next
    case False
    let ?s1 = "s\<lparr>render_throttle_counter := Some (c + 1)\<rparr>"
    have r: "render NoneObj s w = (Return (), ?s1, w)"
      using render_throttled [OF Suc.prems] False by simp
    have ih: "renders n ?s1 w =
      (Return (), ?s1\<lparr>render_throttle_counter := Some ((c + 1 + int n) mod p)\<rparr>,
       emits (replicate (nat ((c + 1 + int n) div p)) BaseRender) w)"
      using Suc.prems False by (intro Suc.IH) auto
    have e: "c + int (Suc n) = c + 1 + int n" by simp
    show ?thesis
      unfolding e by (simp add: r ih)
  qed
qed

text \<open>The same for any counter: one call, calls that do not reach the base class, and a whole period.\<close>

lemma render_no_rendering:
  assumes "render_mode s = NO_RENDERING"
    and "render_throttle_counter s = Some c" and "render_throttle_period s = Some p"
    and "p \<noteq> 0"
  shows "render NoneObj s w =
     (if (c + 1) mod p = 0
      then (Return (), s\<lparr>render_throttle_counter := Some 0\<rparr>, emit BaseRender w)
      else (Return (), s\<lparr>render_throttle_counter := Some (c + 1)\<rparr>, w))"
  using assms by (simp add: render_def Let_def)

lemma renders_idle:
  assumes "render_mode s = NO_RENDERING"
    and "render_throttle_counter s = Some c" and "render_throttle_period s = Some p"
    and "p \<noteq> 0" and "\<forall>i. 1 \<le> i \<and> i \<le> int n \<longrightarrow> (c + i) mod p \<noteq> 0"
  shows "renders n s w = (Return (), s\<lparr>render_throttle_counter := Some (c + int n)\<rparr>, w)"
  using assms
proof (induction n arbitrary: s c)
  case 0
  then show ?case by simp
next
  case (Suc n)
  let ?s1 = "s\<lparr>render_throttle_counter := Some (c + 1)\<rparr>"
  have "1 \<le> (1::int) \<and> 1 \<le> int (Suc n) \<longrightarrow> (c + 1) mod p \<noteq> 0"
    using Suc.prems(5) by (rule spec)
  then have nz: "(c + 1) mod p \<noteq> 0" by simp
  have r: "render NoneObj s w = (Return (), ?s1, w)"
    using render_no_rendering [OF Suc.prems(1-4), of w] nz by simp
  have a: "\<forall>i. 1 \<le> i \<and> i \<le> int n \<longrightarrow> (c + 1 + i) mod p \<noteq> 0"
  proof (intro allI impI)
    fix i assume i: "1 \<le> i \<and> i \<le> int n"
    have "1 \<le> 1 + i \<and> 1 + i \<le> int (Suc n) \<longrightarrow> (c + (1 + i)) mod p \<noteq> 0"
      using Suc.prems(5) by (rule spec)
    with i show "(c + 1 + i) mod p \<noteq> 0" by (simp add: add.assoc)
  qed
  have ih: "renders n ?s1 w = (Return (), ?s1\<lparr>render_throttle_counter := Some (c + 1 + int n)\<rparr>, w)"
    using Suc.prems a by (intro Suc.IH) auto
  have e: "c + int (Suc n) = c + 1 + int n" by simp
  show ?case unfolding e by (simp add: r ih)
qed

lemma renders_add:
  "renders (a + b) s w =
     (case renders a s w of
        (Raise e, s1, w1) \<Rightarrow> (Raise e, s1, w1)
      | (Return _, s1, w1) \<Rightarrow> renders b s1 w1)"
  by (induction a arbitrary: s w) (auto split: prod.splits outcome.splits)

lemma renders_period:
  assumes "render_mode s = NO_RENDERING"
    and "render_throttle_counter s = Some c" and "render_throttle_period s = Some p"
    and "0 < p"
  shows "renders (nat p) s w =
     (Return (), s\<lparr>render_throttle_counter := Some (c mod p)\<rparr>, emits [BaseRender] w)"
proof -
  define m where "m = c mod p"
  have m: "0 \<le> m" "m < p" using assms(4) by (simp_all add: m_def)
  define a where "a = nat (p - m - 1)"
  define b where "b = nat m"
  have split: "nat p = a + (1 + b)" using m by (simp add: a_def b_def)
  let ?s1 = "s\<lparr>render_throttle_counter := Some (c + int a)\<rparr>"
  have idle: "\<forall>i. 1 \<le> i \<and> i \<le> int a \<longrightarrow> (c + i) mod p \<noteq> 0"
  proof (intro allI impI)
    fix i assume i: "1 \<le> i \<and> i \<le> int a"
    then have "0 < m + i" "m + i < p" using m by (simp_all add: a_def)
    then have "(m + i) mod p = m + i" by simp
    moreover have "(c + i) mod p = (m + i) mod p" by (simp add: m_def mod_add_left_eq)
    ultimately show "(c + i) mod p \<noteq> 0" using \<open>0 < m + i\<close> by simp
  qed
  have r1: "renders a s w = (Return (), ?s1, w)"
    using assms idle by (intro renders_idle) auto
  have "c + int a + 1 = (c - c mod p) + p"
    using m by (simp add: a_def m_def)
  also have "\<dots> = p * (c div p) + p"
    by (simp only: minus_mod_eq_mult_div)
  finally have trig: "(c + int a + 1) mod p = 0" by simp
  let ?s2 = "s\<lparr>render_throttle_counter := Some 0\<rparr>"
  have r2: "render NoneObj ?s1 w = (Return (), ?s2, emit BaseRender w)"
    using render_no_rendering [of ?s1 "c + int a" p w] assms trig by simp
  have r3: "renders b ?s2 (emit BaseRender w) =
     (Return (), ?s2\<lparr>render_throttle_counter := Some ((0 + int b) mod p)\<rparr>,
      emits (replicate (nat ((0 + int b) div p)) BaseRender) (emit BaseRender w))"
    using assms by (intro renders_throttled) auto
  have b: "int b mod p = m" "int b div p = 0" using m by (simp_all add: b_def)
  have "renders (nat p) s w = renders (1 + b) ?s1 w"
    unfolding split by (simp only: renders_add r1) simp
  also have "\<dots> = renders b ?s2 (emit BaseRender w)"
    by (simp add: r2)
  also note r3
  finally show ?thesis
    by (simp add: b m_def emits_def emit_def)
qed

text \<open>
  Claim C3. In \<^verbatim>\<open>NO_RENDERING\<close> mode, with a period \<open>p > 0\<close>:
  \<^item> \<open>p\<close> calls of \<^verbatim>\<open>render()\<close> in a row make the base class render exactly once; they
    leave the counter \<open>c\<close> at \<open>c mod p\<close>, which is \<open>c\<close> itself when the counter is below
    the period, as the program keeps it (lemma \<open>throttle_kept\<close>);
  \<^item> a call in which the base class renders leaves the counter at 0;
  \<^item> a change of the render mode into \<^verbatim>\<open>NO_RENDERING\<close> leaves the counter at 0;
  \<^item> outside headless mode the constructor sets the period to 5 and the counter to 0.
\<close>

theorem no_rendering_throttle:
  "(render_mode s = NO_RENDERING \<and> render_throttle_counter s = Some c \<and>
    render_throttle_period s = Some p \<and> 0 < p \<longrightarrow>
      renders (nat p) s w =
        (Return (), s\<lparr>render_throttle_counter := Some (c mod p)\<rparr>, emits [BaseRender] w)) \<and>
   (render_mode t = NO_RENDERING \<and> render NoneObj t v = (out, t', v') \<and> calls v' \<noteq> calls v \<longrightarrow>
      calls v' = calls v @ [BaseRender] \<and> render_throttle_counter t' = Some 0) \<and>
   (render_mode s0 \<noteq> NO_RENDERING \<and> set_render_mode mode s0 = (Return (), s1) \<and>
    render_mode s1 = NO_RENDERING \<longrightarrow>
      render_throttle_counter s1 = Some 0) \<and>
   (init default_cfg cfg_arg w0 = (Return s2, w2) \<and> \<not> is_headless s2 \<longrightarrow>
      render_throttle_period s2 = Some 5 \<and> render_throttle_counter s2 = Some 0)"
proof (intro conjI impI)
  assume "render_mode s = NO_RENDERING \<and> render_throttle_counter s = Some c \<and>
    render_throttle_period s = Some p \<and> 0 < p"
  then show "renders (nat p) s w =
        (Return (), s\<lparr>render_throttle_counter := Some (c mod p)\<rparr>, emits [BaseRender] w)"
    by (intro renders_period) auto
next
  assume "render_mode t = NO_RENDERING \<and> render NoneObj t v = (out, t', v') \<and> calls v' \<noteq> calls v"
  then show "calls v' = calls v @ [BaseRender]" "render_throttle_counter t' = Some 0"
    by (auto simp add: render_def Let_def emit_def split: option.splits if_splits)
next
  assume "render_mode s0 \<noteq> NO_RENDERING \<and> set_render_mode mode s0 = (Return (), s1) \<and>
    render_mode s1 = NO_RENDERING"
  then show "render_throttle_counter s1 = Some 0"
    by (auto simp add: set_render_mode_def split: if_splits prod.splits outcome.splits)
next
  assume "init default_cfg cfg_arg w0 = (Return s2, w2) \<and> \<not> is_headless s2"
  then show "render_throttle_period s2 = Some 5" "render_throttle_counter s2 = Some 0"
    by (auto simp add: init_def is_headless_def Let_def split: if_splits option.splits)
qed

theorem no_rendering_throttle_witness:
  "renders 5 no_rendering_ctx started_world =
     (Return (), no_rendering_ctx, emits [BaseRender] started_world) \<and>
   render_throttle_counter
     (fst (snd (render NoneObj (no_rendering_ctx\<lparr>render_throttle_counter := Some 4\<rparr>) started_world)))
     = Some 0 \<and>
   render_throttle_counter (snd (set_render_mode (RenderModeObj NO_RENDERING) gui_ctx)) = Some 0 \<and>
   render_throttle_period gui_ctx = Some 5"
proof -
  let ?t = "no_rendering_ctx\<lparr>render_throttle_counter := Some 4\<rparr>"
  have h1: "render_mode no_rendering_ctx = NO_RENDERING \<and>
      render_throttle_counter no_rendering_ctx = Some 0 \<and>
      render_throttle_period no_rendering_ctx = Some 5 \<and> (0::int) < 5"
    by (simp add: no_rendering_ctx_def gui_ctx_def)
  have r: "render NoneObj ?t started_world = (Return (), no_rendering_ctx, emit BaseRender started_world)"
    by (simp add: render_def no_rendering_ctx_def gui_ctx_def)
  have h2: "render_mode ?t = NO_RENDERING \<and>
      render NoneObj ?t started_world = (Return (), no_rendering_ctx, emit BaseRender started_world) \<and>
      calls (emit BaseRender started_world) \<noteq> calls started_world"
    using r by (simp add: no_rendering_ctx_def emit_def)
  have h3: "render_mode gui_ctx \<noteq> NO_RENDERING \<and>
      set_render_mode (RenderModeObj NO_RENDERING) gui_ctx = (Return (), no_rendering_ctx) \<and>
      render_mode no_rendering_ctx = NO_RENDERING"
    by (simp add: no_rendering_example) (simp add: gui_ctx_def no_rendering_ctx_def)
  have "init example_cfg None gui_world = (Return gui_ctx, started_world)"
    using init_examples(1) by (simp add: started_world_def prod_eq_iff)
  then have h4: "init example_cfg None gui_world = (Return gui_ctx, started_world) \<and>
      \<not> is_headless gui_ctx"
    by (simp add: is_headless_def gui_ctx_def)
  from no_rendering_throttle
         [where s = no_rendering_ctx and c = 0 and p = 5 and w = started_world
            and t = ?t and v = started_world and out = "Return ()" and t' = no_rendering_ctx
            and v' = "emit BaseRender started_world"
            and ?s0.0 = gui_ctx and mode = "RenderModeObj NO_RENDERING" and ?s1.0 = no_rendering_ctx
            and default_cfg = example_cfg and cfg_arg = None and ?w0.0 = gui_world
            and ?s2.0 = gui_ctx and ?w2.0 = started_world]
       h1 h2 h3 h4
  show ?thesis by (simp add: r no_rendering_example)
qed

text \<open>The constructor, \<^verbatim>\<open>set_render_mode\<close> and \<^verbatim>\<open>render\<close> keep the counter below the period.\<close>

lemma throttle_kept:
  "init default_cfg cfg_arg w = (Return s', w') \<Longrightarrow> throttle_ok s'"
  "throttle_ok s \<Longrightarrow> throttle_ok (snd (set_render_mode mode s))"
  "throttle_ok s \<Longrightarrow> throttle_ok (fst (snd (render NoneObj s w)))"
proof -
  show "init default_cfg cfg_arg w = (Return s', w') \<Longrightarrow> throttle_ok s'"
    by (auto simp add: init_def throttle_ok_def Let_def split: if_splits option.splits)
next
  show "throttle_ok s \<Longrightarrow> throttle_ok (snd (set_render_mode mode s))"
    by (auto simp add: set_render_mode_def set_viewport_flags_def throttle_ok_def Let_def
        split: option.splits)
next
  assume ok: "throttle_ok s"
  show "throttle_ok (fst (snd (render NoneObj s w)))"
  proof (cases "render_mode s = NO_RENDERING")
    case True
    with ok obtain c p where
      cp: "render_throttle_counter s = Some c" "render_throttle_period s = Some p" "0 \<le> c" "c < p"
      by (auto simp add: throttle_ok_def split: option.splits)
    show ?thesis
      using render_throttled [OF True cp, of w] True cp
      by (auto simp add: throttle_ok_def)
  next
    case False
    then show ?thesis using ok by (simp add: render_def throttle_ok_def)
  qed
qed

subsection \<open>Stepping\<close>

text \<open>\<^verbatim>\<open>render\<close> makes render calls only, whatever its outcome.\<close>

lemma render_none_calls:
  "render NoneObj s w = (out, s1, w1) \<Longrightarrow>
   \<exists>rs. calls w1 = calls w @ rs \<and> list_all render_call rs"
  by (auto simp add: render_def Let_def emit_def render_call_def split: if_splits option.splits)

text \<open>
  When the loop ends, it has made render calls only; and when it ends without an
  exception, the timeline is playing or stopped.
\<close>

lemma poll_calls:
  "poll tline s w = Some y \<Longrightarrow>
   \<exists>rs. calls (snd (snd y)) = calls w @ rs \<and> list_all render_call rs \<and>
        (fst y = Return () \<longrightarrow>
           tline (calls (snd (snd y))) = Playing \<or> tline (calls (snd (snd y))) = Stopped)"
proof (induction tline s w y rule: poll.raw_induct [rotated 1, consumes 1])
  case (1 poll' tline s w y)
  show ?case
  proof (cases "is_playing tline w")
    case True
    with 1(2) have "y = (Return (), s, w)" by auto
    with True show ?thesis by (simp add: is_playing_def)
  next
    case False
    obtain o1 s1 w1 where r: "render NoneObj s w = (o1, s1, w1)"
      by (cases "render NoneObj s w")
    from render_none_calls [OF r] obtain rs where
      rs: "calls w1 = calls w @ rs" "list_all render_call rs" by blast
    show ?thesis
    proof (cases o1)
      case (Raise e)
      with 1(2) False r have "y = (Raise e, s1, w1)" by auto
      with rs show ?thesis by simp
    next
      case (Return u)
      show ?thesis
      proof (cases "is_stopped tline w1")
        case True
        with 1(2) False r Return have "y = (Return (), s1, w1)" by auto
        with rs True show ?thesis by (simp add: is_stopped_def)
      next
        case st: False
        with 1(2) False r Return have "poll' tline s1 w1 = Some y" by auto
        from 1(1) [OF this] obtain rs' where
          rs': "calls (snd (snd y)) = calls w1 @ rs'" "list_all render_call rs'"
            "fst y = Return () \<longrightarrow>
               tline (calls (snd (snd y))) = Playing \<or> tline (calls (snd (snd y))) = Stopped"
          by blast
        have "calls (snd (snd y)) = calls w @ (rs @ rs')" using rs(1) rs'(1) by simp
        moreover have "list_all render_call (rs @ rs')" using rs(2) rs'(2) by simp
        ultimately show ?thesis using rs'(3) by blast
      qed
    qed
  qed
qed

text \<open>
  Claim C1, amended. When \<^verbatim>\<open>step()\<close> is called while the timeline is not playing and
  returns, then the calls it has made are: render calls only (the polling phase, with no
  physics step), at the end of which the timeline is playing or stopped; then one
  \<^verbatim>\<open>app.update()\<close>; then the one physics step delegated to the base class. So the method
  does not return before the timeline is playing or stopped.
\<close>

theorem step_waits_for_timeline:
  assumes "\<not> is_playing tline w" and "step tline r s w = Some (Return (), s', w')"
  shows "\<exists>rs. calls w' = calls w @ rs @ [AppUpdate, BaseStep r] \<and> list_all render_call rs \<and>
           (tline (calls w @ rs) = Playing \<or> tline (calls w @ rs) = Stopped)"
proof -
  from assms obtain s1 w1 where
    p: "poll tline s w = Some (Return (), s1, w1)" and
    w': "w' = emit (BaseStep r) (emit AppUpdate w1)"
    by (auto simp add: step_def split: option.splits outcome.splits)
  from poll_calls [OF p] obtain rs where
    "calls w1 = calls w @ rs" "list_all render_call rs"
    "tline (calls w1) = Playing \<or> tline (calls w1) = Stopped"
    by auto
  with w' show ?thesis by (auto simp add: emit_def)
qed

text \<open>
  The loop while the timeline is paused: it goes on to the next render of the base class
  (in \<^verbatim>\<open>NO_RENDERING\<close> mode through the calls of \<^verbatim>\<open>render()\<close> that the throttle leaves
  empty), and ends there unless the timeline is still paused.
\<close>

lemma poll_paused_throttled:
  assumes "render_mode s = NO_RENDERING"
    and "render_throttle_counter s = Some c" and "render_throttle_period s = Some p"
    and "0 \<le> c" and "c < p" and "tline (calls w) = Paused"
  shows "poll tline s w =
     (if tline (calls w @ [BaseRender]) = Paused
      then poll tline (s\<lparr>render_throttle_counter := Some 0\<rparr>) (emits [BaseRender] w)
      else Some (Return (), s\<lparr>render_throttle_counter := Some 0\<rparr>, emits [BaseRender] w))"
  using assms
proof (induction "nat (p - 1 - c)" arbitrary: s c)
  case 0
  then have cp: "c + 1 = p" by simp
  have r: "render NoneObj s w =
      (Return (), s\<lparr>render_throttle_counter := Some 0\<rparr>, emit BaseRender w)"
    using render_throttled [OF "0.prems"(1-5)] cp by simp
  have np: "\<not> is_playing tline w" using "0.prems"(6) by (simp add: is_playing_def)
  show ?case
  proof (cases "tline (calls w @ [BaseRender])")
    case Playing
    then show ?thesis
      by (subst poll.simps, simp add: np r, subst poll.simps)
         (simp add: is_playing_def is_stopped_def emit_def emits_def)
  next
    case Paused
    then show ?thesis
      by (subst poll.simps) (simp add: np r is_stopped_def emit_def emits_def)
  next
    case Stopped
    then show ?thesis
      by (subst poll.simps) (simp add: np r is_stopped_def emit_def emits_def)
  qed
next
  case (Suc n)
  then have cp: "c + 1 \<noteq> p" "c + 1 < p" "n = nat (p - 1 - (c + 1))" by auto
  let ?s1 = "s\<lparr>render_throttle_counter := Some (c + 1)\<rparr>"
  have r: "render NoneObj s w = (Return (), ?s1, w)"
    using render_throttled [OF Suc.prems(1-5)] cp by simp
  have np: "\<not> is_playing tline w" "\<not> is_stopped tline w"
    using Suc.prems(6) by (simp_all add: is_playing_def is_stopped_def)
  have "poll tline s w = poll tline ?s1 w"
    by (subst poll.simps) (simp add: np r)
  also have "\<dots> =
     (if tline (calls w @ [BaseRender]) = Paused
      then poll tline (?s1\<lparr>render_throttle_counter := Some 0\<rparr>) (emits [BaseRender] w)
      else Some (Return (), ?s1\<lparr>render_throttle_counter := Some 0\<rparr>, emits [BaseRender] w))"
    using Suc.prems cp by (intro Suc.hyps(1)) auto
  finally show ?case by simp
qed

lemma poll_paused:
  assumes "throttle_ok s" and "tline (calls w) = Paused"
  shows "poll tline s w =
     (if tline (calls w @ render_emits s) = Paused
      then poll tline (after_render s) (emits (render_emits s) w)
      else Some (Return (), after_render s, emits (render_emits s) w))"
proof (cases "render_mode s = NO_RENDERING")
  case True
  with assms(1) obtain c p where
    cp: "render_throttle_counter s = Some c" "render_throttle_period s = Some p" "0 \<le> c" "c < p"
    by (auto simp add: throttle_ok_def split: option.splits)
  show ?thesis
    using poll_paused_throttled [of s c p tline w] True cp assms(2)
    by (simp add: render_emits_def after_render_def)
next
  case False
  have r: "render NoneObj s w = (Return (), s, emits (render_emits s) w)"
    using False by (simp add: render_def render_emits_def emits_def emit_def)
  have np: "\<not> is_playing tline w" using assms(2) by (simp add: is_playing_def)
  show ?thesis
  proof (cases "tline (calls w @ render_emits s)")
    case Playing
    then show ?thesis using False
      by (subst poll.simps, simp add: np r, subst poll.simps)
         (simp add: is_playing_def is_stopped_def emits_def after_render_def)
  next
    case Paused
    then show ?thesis using False
      by (subst poll.simps) (simp add: np r is_stopped_def emits_def after_render_def)
  next
    case Stopped
    then show ?thesis using False
      by (subst poll.simps) (simp add: np r is_stopped_def emits_def after_render_def)
  qed
qed

lemma after_render_simps:
  "throttle_ok s \<Longrightarrow> throttle_ok (after_render s)"
  "render_emits (after_render s) = render_emits s"
  "after_render (after_render s) = after_render s"
  by (auto simp add: throttle_ok_def after_render_def render_emits_def split: option.splits)

text \<open>
  The method returns: when the timeline is paused up to the \<open>k\<close>-th render of the base
  class and is playing or stopped after the next one, \<^verbatim>\<open>step()\<close> returns there.
\<close>

lemma poll_returns:
  assumes "throttle_ok s"
    and "\<forall>j\<le>k. tline (calls w @ concat (replicate j (render_emits s))) = Paused"
    and "tline (calls w @ concat (replicate (Suc k) (render_emits s))) \<noteq> Paused"
  shows "poll tline s w =
     Some (Return (), after_render s, emits (concat (replicate (Suc k) (render_emits s))) w)"
  using assms
proof (induction k arbitrary: s w)
  case 0
  then have "tline (calls w) = Paused" "tline (calls w @ render_emits s) \<noteq> Paused" by auto
  with poll_paused [of s tline w] "0.prems"(1) show ?case by simp
next
  case (Suc k)
  let ?u = "render_emits s"
  have p0: "tline (calls w) = Paused" using Suc.prems(2) by auto
  have "1 \<le> Suc k \<longrightarrow> tline (calls w @ concat (replicate 1 ?u)) = Paused"
    using Suc.prems(2) by (rule spec)
  then have p1: "tline (calls w @ ?u) = Paused" by simp
  have unfold: "poll tline s w = poll tline (after_render s) (emits ?u w)"
    using poll_paused [of s tline w] Suc.prems(1) p0 p1 by simp
  have a: "\<forall>j\<le>k. tline (calls (emits ?u w) @
              concat (replicate j (render_emits (after_render s)))) = Paused"
  proof (intro allI impI)
    fix j assume "j \<le> k"
    then have "tline (calls w @ concat (replicate (Suc j) ?u)) = Paused"
      using Suc.prems(2) by auto
    then show "tline (calls (emits ?u w) @
              concat (replicate j (render_emits (after_render s)))) = Paused"
      by (simp add: emits_def after_render_simps)
  qed
  have b: "tline (calls (emits ?u w) @
              concat (replicate (Suc k) (render_emits (after_render s)))) \<noteq> Paused"
    using Suc.prems(3) by (simp add: emits_def after_render_simps)
  from Suc.IH [OF after_render_simps(1) [OF Suc.prems(1)] a b] unfold
  show ?case by (simp add: after_render_simps emits_def)
qed

lemma step_returns:
  assumes "throttle_ok s"
    and "\<forall>j\<le>k. tline (calls w @ concat (replicate j (render_emits s))) = Paused"
    and "tline (calls w @ concat (replicate (Suc k) (render_emits s))) \<noteq> Paused"
  shows "step tline r s w =
     Some (Return (), after_render s,
           emits (concat (replicate (Suc k) (render_emits s)) @ [AppUpdate, BaseStep r]) w)"
proof -
  have "tline (calls w) = Paused" using assms(2) by auto
  then have "\<not> is_playing tline w" by (simp add: is_playing_def)
  then show ?thesis
    by (simp add: step_def poll_returns [OF assms] emit_def emits_def)
qed

text \<open>
  The method blocks: while the timeline stays paused whatever is rendered, \<^verbatim>\<open>step()\<close>
  neither returns nor raises.
\<close>

lemma render_ok:
  assumes "throttle_ok s"
  shows "\<exists>s1 w1. render NoneObj s w = (Return (), s1, w1) \<and> throttle_ok s1"
proof (cases "render_mode s = NO_RENDERING")
  case True
  with assms obtain c p where
    cp: "render_throttle_counter s = Some c" "render_throttle_period s = Some p" "0 \<le> c" "c < p"
    by (auto simp add: throttle_ok_def split: option.splits)
  show ?thesis
    using render_throttled [OF True cp, of w] True cp
    by (auto simp add: throttle_ok_def)
next
  case False
  then show ?thesis using assms by (simp add: render_def throttle_ok_def)
qed

lemma poll_no_raise:
  "poll tline s w = Some y \<Longrightarrow> throttle_ok s \<Longrightarrow> fst y = Return ()"
proof (induction tline s w y rule: poll.raw_induct [rotated 1, consumes 1])
  case (1 poll' tline s w y)
  from render_ok [OF 1(3), of w] obtain s1 w1 where
    r: "render NoneObj s w = (Return (), s1, w1)" and ok: "throttle_ok s1" by blast
  show ?case
  proof (cases "is_playing tline w \<or> is_stopped tline w1")
    case True
    with 1(2) show ?thesis by (auto simp add: r split: if_splits)
  next
    case False
    with 1(2) have "poll' tline s1 w1 = Some y" by (simp add: r)
    from 1(1) [OF this ok] show ?thesis .
  qed
qed

lemma step_blocks:
  assumes "throttle_ok s"
    and "\<forall>rs. list_all render_call rs \<longrightarrow> tline (calls w @ rs) = Paused"
  shows "step tline r s w = None"
proof -
  have "list_all render_call [] \<longrightarrow> tline (calls w @ []) = Paused"
    using assms(2) by (rule spec)
  then have np: "\<not> is_playing tline w" by (simp add: is_playing_def)
  have "poll tline s w = None"
  proof (cases "poll tline s w")
    case None
    then show ?thesis .
  next
    case (Some y)
    from poll_no_raise [OF Some assms(1)] have "fst y = Return ()" .
    with poll_calls [OF Some] obtain rs where
      "calls (snd (snd y)) = calls w @ rs" "list_all render_call rs"
      "tline (calls (snd (snd y))) = Playing \<or> tline (calls (snd (snd y))) = Stopped"
      by blast
    then have rs: "list_all render_call rs" "tline (calls w @ rs) \<noteq> Paused" by auto
    have "list_all render_call rs \<longrightarrow> tline (calls w @ rs) = Paused"
      using assms(2) by (rule spec)
    with rs show ?thesis by simp
  qed
  with np show ?thesis by (simp add: step_def)
qed

text \<open>
  An example: the user presses play during the second render. In full rendering,
  \<^verbatim>\<open>step()\<close> calls \<^verbatim>\<open>render()\<close> twice; in \<^verbatim>\<open>NO_RENDERING\<close> mode it calls it ten times, of
  which two reach the base class.
\<close>

lemma step_example:
  "step play_after_two True gui_ctx started_world =
     Some (Return (), gui_ctx,
           emits [BaseRender, BaseRender, AppUpdate, BaseStep True] started_world)"
  "step play_after_two True no_rendering_ctx started_world =
     Some (Return (), no_rendering_ctx,
           emits [BaseRender, BaseRender, AppUpdate, BaseStep True] started_world)"
  using step_returns [of gui_ctx "Suc 0" play_after_two started_world True]
    step_returns [of no_rendering_ctx "Suc 0" play_after_two started_world True]
  by (simp_all add: throttle_ok_def gui_ctx_def no_rendering_ctx_def started_world_fields
        render_emits_def play_after_two_def after_render_def le_Suc_eq)

theorem step_waits_for_timeline_witness:
  "\<not> is_playing play_after_two started_world \<and>
   step play_after_two True gui_ctx started_world =
     Some (Return (), gui_ctx,
           emits [BaseRender, BaseRender, AppUpdate, BaseStep True] started_world) \<and>
   (\<exists>rs. calls (emits [BaseRender, BaseRender, AppUpdate, BaseStep True] started_world) =
            calls started_world @ rs @ [AppUpdate, BaseStep True] \<and>
          list_all render_call rs \<and>
          (play_after_two (calls started_world @ rs) = Playing \<or>
           play_after_two (calls started_world @ rs) = Stopped))"
proof -
  have h1: "\<not> is_playing play_after_two started_world"
    by (simp add: is_playing_def play_after_two_def started_world_fields)
  note h2 = step_example(1)
  from step_waits_for_timeline [OF h1 h2] h1 h2 show ?thesis by simp
qed

text \<open>
  Claim C1, as the specification states it, has only render calls before the delegated
  physics step. In the example, \<^verbatim>\<open>step()\<close> makes two render calls, then the call
  \<^verbatim>\<open>app.update()\<close> of line 350, which is no render call, and then the physics step.
\<close>

theorem step_app_update_counterexample:
  "\<not> is_playing play_after_two started_world \<and>
   step play_after_two True gui_ctx started_world =
     Some (Return (), gui_ctx,
           started_world\<lparr>calls := calls started_world @
                          [BaseRender, BaseRender, AppUpdate, BaseStep True]\<rparr>) \<and>
   \<not> list_all render_call [BaseRender, BaseRender, AppUpdate]"
  using step_returns [of gui_ctx "Suc 0" play_after_two started_world True]
  by (simp add: throttle_ok_def gui_ctx_def started_world_fields render_emits_def
        play_after_two_def after_render_def emits_def le_Suc_eq is_playing_def render_call_def)

subsection \<open>Solver parameters\<close>

text \<open>
  Claim C10. \<^verbatim>\<open>_set_additional_physx_params\<close> divides by the norm of the configured
  gravity vector without a guard. For the zero vector, with the physics scene present and a
  version that parses, the method returns normally, and the division by zero has been
  made: the direction handed to the physics scene is (NaN, NaN, NaN), the magnitude 0.
\<close>

theorem zero_gravity_unchecked:
  assumes "physx_scene_api w" and "gravity (cfg s) = (0, 0, 0)" and "get_version s = Return v"
  shows "fst (set_additional_physx_params s w) = Return () \<and>
         CreateGravityDirectionAttr NaN NaN NaN
           \<in> set (calls (snd (set_additional_physx_params s w))) \<and>
         CreateGravityMagnitudeAttr 0 \<in> set (calls (snd (set_additional_physx_params s w)))"
  using assms
  by (simp add: set_additional_physx_params_def Let_def np_linalg_norm_def np_true_divide_def
        emit_def)

theorem zero_gravity_unchecked_witness:
  "physx_scene_api started_world \<and>
   gravity (cfg zero_gravity_ctx) = (0, 0, 0) \<and>
   get_version zero_gravity_ctx = Return (2023, 1, 0) \<and>
   fst (set_additional_physx_params zero_gravity_ctx started_world) = Return () \<and>
   CreateGravityDirectionAttr NaN NaN NaN
     \<in> set (calls (snd (set_additional_physx_params zero_gravity_ctx started_world)))"
proof -
  have h1: "physx_scene_api started_world" by (rule started_world_fields)
  have h2: "gravity (cfg zero_gravity_ctx) = (0, 0, 0)"
    by (simp add: zero_gravity_ctx_def)
  have h3: "get_version zero_gravity_ctx = Return (2023, 1, 0)"
    by (simp add: zero_gravity_ctx_def gui_ctx_def gui_world_def get_version_def int_at_def
          seq_get_def py_int_def py_strip_def is_py_space_def py_unsigned_def
          int_max_str_digits_def digit_val_def)
  from zero_gravity_unchecked [OF h1 h2 h3] h1 h2 h3 show ?thesis by simp
qed

text \<open>
  No path of the method looks at the gravity vector: its outcome is the same for every
  gravity vector in the configuration.
\<close>

lemma gravity_never_checked:
  "fst (set_additional_physx_params (s\<lparr>cfg := (cfg s)\<lparr>gravity := g\<rparr>\<rparr>) w) =
   fst (set_additional_physx_params s w)"
  by (simp add: set_additional_physx_params_def Let_def get_version_def split_beta
      split: outcome.splits)

text \<open>The calls of the method for the two example objects.\<close>

lemma set_additional_physx_params_examples:
  "calls (snd (set_additional_physx_params zero_gravity_ctx started_world)) =
     [BaseInit (1 / 60) (1 / 60) ''/physicsScene'' ''cuda:0'',
      EnableCcd False, CreateGpuCollisionStackSizeAttr 67108864,
      CreateGravityDirectionAttr NaN NaN NaN, CreateGravityMagnitudeAttr 0,
      CreateMinPositionIterationCountAttr 1, CreateMaxPositionIterationCountAttr 255,
      CreateMinVelocityIterationCountAttr 0, CreateMaxVelocityIterationCountAttr 255,
      CreatePhysicsMaterial ''/physicsScene/defaultMaterial'',
      BindPhysicsMaterial ''/physicsScene'' ''/physicsScene/defaultMaterial'']"
  "calls (snd (set_additional_physx_params gui_ctx started_world)) =
     [BaseInit (1 / 60) (1 / 60) ''/physicsScene'' ''cuda:0'',
      EnableCcd False, CreateGpuCollisionStackSizeAttr 67108864,
      CreateGravityDirectionAttr (Finite 0) (Finite 0) (Finite (- 1)),
      CreateGravityMagnitudeAttr (981 / 100),
      CreateMinPositionIterationCountAttr 1, CreateMaxPositionIterationCountAttr 255,
      CreateMinVelocityIterationCountAttr 0, CreateMaxVelocityIterationCountAttr 255,
      CreatePhysicsMaterial ''/physicsScene/defaultMaterial'',
      BindPhysicsMaterial ''/physicsScene'' ''/physicsScene/defaultMaterial'']"
proof -
  have v: "get_version gui_ctx = Return (2023, 1, 0)"
    "get_version zero_gravity_ctx = Return (2023, 1, 0)"
    by (simp_all add: zero_gravity_ctx_def gui_ctx_def gui_world_def get_version_def int_at_def
          seq_get_def py_int_def py_strip_def is_py_space_def py_unsigned_def
          int_max_str_digits_def digit_val_def)
  have n: "sqrt (981 * 981 / (100 * 100)) = 981 / 100"
    using real_sqrt_abs2 [of "981 / 100"] by simp
  show "calls (snd (set_additional_physx_params zero_gravity_ctx started_world)) =
     [BaseInit (1 / 60) (1 / 60) ''/physicsScene'' ''cuda:0'',
      EnableCcd False, CreateGpuCollisionStackSizeAttr 67108864,
      CreateGravityDirectionAttr NaN NaN NaN, CreateGravityMagnitudeAttr 0,
      CreateMinPositionIterationCountAttr 1, CreateMaxPositionIterationCountAttr 255,
      CreateMinVelocityIterationCountAttr 0, CreateMaxVelocityIterationCountAttr 255,
      CreatePhysicsMaterial ''/physicsScene/defaultMaterial'',
      BindPhysicsMaterial ''/physicsScene'' ''/physicsScene/defaultMaterial'']"
    by (simp add: set_additional_physx_params_def v started_world_fields Let_def emit_def
          np_linalg_norm_def np_true_divide_def)
       (simp add: zero_gravity_ctx_def gui_ctx_def example_cfg_def)
  show "calls (snd (set_additional_physx_params gui_ctx started_world)) =
     [BaseInit (1 / 60) (1 / 60) ''/physicsScene'' ''cuda:0'',
      EnableCcd False, CreateGpuCollisionStackSizeAttr 67108864,
      CreateGravityDirectionAttr (Finite 0) (Finite 0) (Finite (- 1)),
      CreateGravityMagnitudeAttr (981 / 100),
      CreateMinPositionIterationCountAttr 1, CreateMaxPositionIterationCountAttr 255,
      CreateMinVelocityIterationCountAttr 0, CreateMaxVelocityIterationCountAttr 255,
      CreatePhysicsMaterial ''/physicsScene/defaultMaterial'',
      BindPhysicsMaterial ''/physicsScene'' ''/physicsScene/defaultMaterial'']"
    by (simp add: set_additional_physx_params_def v started_world_fields Let_def emit_def
          np_linalg_norm_def np_true_divide_def)
       (simp add: gui_ctx_def example_cfg_def n)
qed

end
